theory Spec2Isabelle
  imports Main "HOL-Library.Sublist" "HOL-Library.AList"
begin

section \<open>The API proxy route \<open>apps/start/src/routes/api/op.$.tsx\<close>\<close>

text \<open>
  The route exports one handler, \<open>proxyRequest\<close>, bound to GET, POST, PUT, PATCH, DELETE
  and OPTIONS. It reads two environment variables, rewrites the inbound URL, calls
  \<open>fetch\<close> once and relays the answer. The embedding below follows the handler line by
  line. What the JavaScript platform supplies from outside (the URL parser behind
  \<open>new URL(internalApiUrl).host\<close> and the network behind \<open>fetch\<close>) is passed to the
  handler as a parameter. Every call inside the \<open>try\<close> block that can throw returns a
  sum or option type, and every exception leads to the \<open>catch\<close> branch: the URL parser,
  \<open>request.text()\<close>, \<open>fetch\<close> and the \<open>Response\<close> constructor. The two \<open>console\<close> lines
  write diagnostics only and are left out.
\<close>

subsection \<open>Strings and truthiness\<close>

text \<open>
  \<open>String.prototype.toLowerCase\<close> on header names, which are ASCII tokens: the letters
  A to Z are mapped to a to z, every other character is kept.
\<close>

definition char_toLowerCase :: "char \<Rightarrow> char" where
  "char_toLowerCase c =
     (case map_of (zip ''ABCDEFGHIJKLMNOPQRSTUVWXYZ'' ''abcdefghijklmnopqrstuvwxyz'') c of
        Some l \<Rightarrow> l
      | None \<Rightarrow> c)"

definition toLowerCase :: "string \<Rightarrow> string" where
  "toLowerCase s = map char_toLowerCase s"

text \<open>
  An entry of \<open>process.env\<close> is \<open>undefined\<close> (\<open>None\<close>) or a string. JavaScript takes
  \<open>undefined\<close> and the empty string as false, every other string as true.
\<close>

fun truthy :: "string option \<Rightarrow> bool" where
  "truthy None = False"
| "truthy (Some s) = (s \<noteq> [])"

text \<open>The operator \<open>a || b\<close>: the left operand when it is truthy, the right one otherwise.\<close>

definition logical_or :: "string option \<Rightarrow> string option \<Rightarrow> string option" where
  "logical_or a b = (if truthy a then a else b)"

subsection \<open>Bytes and text\<close>

text \<open>
  A request body arrives as bytes, \<open>request.text()\<close> turns the bytes into a string, and
  \<open>fetch\<close> turns a string body into bytes again. A byte is a number below 256. The text
  of a string is the list of its code points: a string that comes out of the decoder is
  well formed, so its UTF-16 code units and its code points determine each other.

  \<open>request.text()\<close> runs the algorithm \<open>UTF-8 decode\<close> of the Encoding Standard: a
  leading byte order mark \<open>EF BB BF\<close> is dropped, then the UTF-8 decoder runs in
  replacement mode. \<open>utf8_decoder\<close> is that decoder, with its five variables as
  arguments: code point, bytes seen, bytes needed, lower and upper boundary. A byte that
  does not continue a sequence ends it with \<open>U+FFFD\<close> and is read again as the start of
  the next one; input that ends inside a sequence gives \<open>U+FFFD\<close>. On a byte, \<open>b AND 0x1F\<close>
  is \<open>b mod 32\<close>, and shifting the code point left by six bits and adding the low six
  bits of the byte is \<open>cp * 64 + b mod 64\<close>.
\<close>

type_synonym byte = nat

type_synonym code_point = nat

function utf8_decoder ::
  "nat \<Rightarrow> nat \<Rightarrow> nat \<Rightarrow> nat \<Rightarrow> nat \<Rightarrow> byte list \<Rightarrow> code_point list" where
  "utf8_decoder cp seen needed lower upper [] = (if needed \<noteq> 0 then [0xFFFD] else [])"
| "utf8_decoder cp seen needed lower upper (b # bs) =
     (if needed = 0 then
        (if b \<le> 0x7F then b # utf8_decoder 0 0 0 0x80 0xBF bs
         else if 0xC2 \<le> b \<and> b \<le> 0xDF then utf8_decoder (b mod 32) 0 1 0x80 0xBF bs
         else if 0xE0 \<le> b \<and> b \<le> 0xEF then
           utf8_decoder (b mod 16) 0 2
             (if b = 0xE0 then 0xA0 else 0x80) (if b = 0xED then 0x9F else 0xBF) bs
         else if 0xF0 \<le> b \<and> b \<le> 0xF4 then
           utf8_decoder (b mod 8) 0 3
             (if b = 0xF0 then 0x90 else 0x80) (if b = 0xF4 then 0x8F else 0xBF) bs
         else 0xFFFD # utf8_decoder 0 0 0 0x80 0xBF bs)
      else if b < lower \<or> upper < b then 0xFFFD # utf8_decoder 0 0 0 0x80 0xBF (b # bs)
      else if seen + 1 \<noteq> needed
        then utf8_decoder (cp * 64 + b mod 64) (seen + 1) needed 0x80 0xBF bs
        else (cp * 64 + b mod 64) # utf8_decoder 0 0 0 0x80 0xBF bs)"
  by pat_completeness auto
termination
  by (relation "measure (\<lambda>(cp, seen, needed, lower, upper, bs).
        2 * length bs + (if needed = 0 then 0 else 1))") auto

definition utf8_decode :: "byte list \<Rightarrow> code_point list" where
  "utf8_decode bytes =
     utf8_decoder 0 0 0 0x80 0xBF
       (if prefix [0xEF, 0xBB, 0xBF] bytes then drop 3 bytes else bytes)"

text \<open>
  The UTF-8 encoder of the same standard, which \<open>fetch\<close> applies to a string body:
  one to four bytes for each code point.
\<close>

definition utf8_encode_code_point :: "code_point \<Rightarrow> byte list" where
  "utf8_encode_code_point c =
     (if c \<le> 0x7F then [c]
      else if c \<le> 0x7FF then [0xC0 + c div 64, 0x80 + c mod 64]
      else if c \<le> 0xFFFF then [0xE0 + c div 4096, 0x80 + c div 64 mod 64, 0x80 + c mod 64]
      else [0xF0 + c div 262144, 0x80 + c div 4096 mod 64, 0x80 + c div 64 mod 64,
            0x80 + c mod 64])"

definition utf8_encode :: "code_point list \<Rightarrow> byte list" where
  "utf8_encode s = concat (map utf8_encode_code_point s)"

text \<open>A scalar value is a code point that is not a surrogate.\<close>

definition scalar_value :: "code_point \<Rightarrow> bool" where
  "scalar_value c = (c < 0xD800 \<or> (0xE000 \<le> c \<and> c < 0x110000))"

subsection \<open>Requests, responses and header objects\<close>

record env =
  INTERNAL_API_URL :: "string option"
  API_URL :: "string option"

datatype exn = TypeError string | RangeError string | DOMException string

text \<open>
  The inbound \<open>Request\<close>, read through the accessors the handler uses:
  \<open>request.method\<close>, the \<open>pathname\<close> and \<open>search\<close> of \<open>new URL(request.url)\<close>, and the
  pairs that \<open>request.headers.entries()\<close> yields. \<open>req_body\<close> is what reading the body
  stream to its end gives: the bytes of the body, or the exception of a read that fails
  (the stream breaks off, or it was consumed before).
\<close>

record request =
  req_method :: string
  pathname :: string
  search :: string
  req_headers :: "(string \<times> string) list"
  req_body :: "exn + byte list"

text \<open>\<open>await request.text()\<close>: the body read in full and decoded, or the read's exception.\<close>

definition request_text :: "request \<Rightarrow> exn + code_point list" where
  "request_text request =
     (case req_body request of
        Inl e \<Rightarrow> Inl e
      | Inr bytes \<Rightarrow> Inr (utf8_decode bytes))"

text \<open>
  The arguments of the one \<open>fetch\<close> call. The \<open>headers\<close> argument is a plain JavaScript
  object, a finite map from property names to values; \<open>fetch_body = None\<close> is
  \<open>body: undefined\<close>, and a string body is sent as its UTF-8 encoding.
\<close>

record fetch_call =
  fetch_url :: string
  fetch_method :: string
  fetch_headers :: "string \<rightharpoonup> string"
  fetch_body :: "code_point list option"

definition fetch_body_bytes :: "fetch_call \<Rightarrow> byte list option" where
  "fetch_body_bytes call = map_option utf8_encode (fetch_body call)"

text \<open>
  What \<open>fetch\<close> resolves to (\<open>proxyResponse\<close>): status, status text, the pairs that
  \<open>proxyResponse.headers.forEach\<close> visits, in its order, and the body, which is \<open>null\<close>
  (\<open>None\<close>) or a stream whose content the handler never looks at. \<open>forEach\<close> visits the
  names in lower case; the values of a repeated header are joined into one pair, except
  for \<open>Set-Cookie\<close>, whose values cannot be joined and are visited one pair each. So a
  name can occur in several pairs of \<open>fetched_headers\<close>.
\<close>

record 'b fetched =
  fetched_status :: nat
  fetched_statusText :: string
  fetched_headers :: "(string \<times> string) list"
  fetched_body :: "'b option"

text \<open>
  The \<open>Response\<close> the handler returns; its body is \<open>null\<close>, a string or a stream handed
  on.
\<close>

datatype 'b body_init = BodyNull | BodyText string | BodyStream 'b

record 'b response =
  status :: nat
  statusText :: string
  headers :: "(string \<times> string) list"
  body :: "'b body_init"

text \<open>
  A \<open>Headers\<close> object that is only ever written with \<open>set\<close> holds one value per name;
  names are compared without regard to case, so the list is keyed by the lower-case name.
  \<open>set\<close> replaces the value of a name that is present and appends the pair otherwise.
\<close>

definition headers_set :: "string \<Rightarrow> string \<Rightarrow> (string \<times> string) list \<Rightarrow> (string \<times> string) list" where
  "headers_set name v hs = AList.update (toLowerCase name) v hs"

definition headers_get :: "(string \<times> string) list \<Rightarrow> string \<Rightarrow> string option" where
  "headers_get hs name = map_of hs (toLowerCase name)"

text \<open>
  \<open>Object.fromEntries\<close>: the pairs are stored one after the other, a later pair with a
  key already present replaces its value.
\<close>

definition fromEntries :: "(string \<times> string) list \<Rightarrow> (string \<rightharpoonup> string)" where
  "fromEntries entries = fold (\<lambda>(k, v) obj. obj(k \<mapsto> v)) entries Map.empty"

text \<open>
  The \<open>Response\<close> constructor (Fetch Standard, initialize a response). It throws a
  \<open>RangeError\<close> for a status outside 200 to 599, a \<open>TypeError\<close> for a status text that
  is not a reason phrase (a control character other than the tab occurs in it), and a
  \<open>TypeError\<close> for a body that is not \<open>null\<close> together with a null-body status.
\<close>

definition reason_phrase :: "string \<Rightarrow> bool" where
  "reason_phrase s =
     list_all (\<lambda>c. c \<notin> set
        [CHR 0x00, CHR 0x01, CHR 0x02, CHR 0x03, CHR 0x04, CHR 0x05, CHR 0x06, CHR 0x07,
         CHR 0x08, CHR 0x0A, CHR 0x0B, CHR 0x0C, CHR 0x0D, CHR 0x0E, CHR 0x0F, CHR 0x10,
         CHR 0x11, CHR 0x12, CHR 0x13, CHR 0x14, CHR 0x15, CHR 0x16, CHR 0x17, CHR 0x18,
         CHR 0x19, CHR 0x1A, CHR 0x1B, CHR 0x1C, CHR 0x1D, CHR 0x1E, CHR 0x1F, CHR 0x7F]) s"

definition null_body_status :: "nat list" where
  "null_body_status = [101, 103, 204, 205, 304]"

definition new_Response ::
  "'b body_init \<Rightarrow> nat \<Rightarrow> string \<Rightarrow> (string \<times> string) list \<Rightarrow> exn + 'b response" where
  "new_Response b st stt hs =
     (if st < 200 \<or> 599 < st then Inl (RangeError ''status'')
      else if \<not> reason_phrase stt then Inl (TypeError ''statusText'')
      else if b \<noteq> BodyNull \<and> st \<in> set null_body_status then Inl (TypeError ''body'')
      else Inr \<lparr>status = st, statusText = stt, headers = hs, body = b\<rparr>)"

text \<open>The fetched responses that the constructor accepts at lines 60 to 64.\<close>

definition relayable :: "'b fetched \<Rightarrow> bool" where
  "relayable r =
     (200 \<le> fetched_status r \<and> fetched_status r \<le> 599
      \<and> reason_phrase (fetched_statusText r)
      \<and> (fetched_body r = None \<or> fetched_status r \<notin> set null_body_status))"

subsection \<open>The handler\<close>

text \<open>Line 20: \<open>process.env.INTERNAL_API_URL || process.env.API_URL\<close>.\<close>

definition internalApiUrl :: "env \<Rightarrow> string option" where
  "internalApiUrl e = logical_or (INTERNAL_API_URL e) (API_URL e)"

text \<open>
  Line 31: \<open>url.pathname.replace(/^\/api\/op\/?/, '')\<close>. The pattern is anchored at the
  start and not global: when the path begins with \<open>/api/op\<close> these seven characters are
  removed, together with one \<open>/\<close> that follows them directly; any other path is returned
  as it is.
\<close>

definition pathAfterProxy :: "string \<Rightarrow> string" where
  "pathAfterProxy p =
     (if prefix ''/api/op'' p
      then (case drop 7 p of
              [] \<Rightarrow> []
            | c # rest \<Rightarrow> if c = CHR ''/'' then rest else c # rest)
      else p)"

text \<open>Line 32: the template literal \<open>${internalApiUrl}/${pathAfterProxy}${url.search}\<close>.\<close>

definition targetUrl :: "string \<Rightarrow> string \<Rightarrow> string \<Rightarrow> string" where
  "targetUrl base p q = base @ ''/'' @ pathAfterProxy p @ q"

text \<open>
  \<open>JSON.stringify({ error: msg })\<close> for a message without characters that JSON escapes,
  and the \<open>Response\<close> built from it at lines 23 to 26 and 67 to 70.
\<close>

definition JSON_stringify_error :: "string \<Rightarrow> string" where
  "JSON_stringify_error msg = ''{\"error\":\"'' @ msg @ ''\"}''"

definition json_error_response :: "nat \<Rightarrow> string \<Rightarrow> 'b response" where
  "json_error_response code msg =
     \<lparr>status = code, statusText = [],
      headers = headers_set ''Content-Type'' ''application/json'' [],
      body = BodyText (JSON_stringify_error msg)\<rparr>"

text \<open>
  Lines 38 to 48: the second argument of \<open>fetch\<close>, with the target as \<open>fetch_url\<close>. The
  body is read only for a method other than GET and HEAD; when the read fails there is
  no call.
\<close>

definition fetch_init :: "string \<Rightarrow> string \<Rightarrow> request \<Rightarrow> exn + fetch_call" where
  "fetch_init base host request =
     (if req_method request \<noteq> ''GET'' \<and> req_method request \<noteq> ''HEAD''
      then (case request_text request of
              Inl e \<Rightarrow> Inl e
            | Inr t \<Rightarrow>
                Inr \<lparr>fetch_url = targetUrl base (pathname request) (search request),
                     fetch_method = req_method request,
                     fetch_headers = (fromEntries (req_headers request))(''host'' \<mapsto> host),
                     fetch_body = Some t\<rparr>)
      else Inr \<lparr>fetch_url = targetUrl base (pathname request) (search request),
                fetch_method = req_method request,
                fetch_headers = (fromEntries (req_headers request))(''host'' \<mapsto> host),
                fetch_body = None\<rparr>)"

text \<open>Lines 51 to 57: the loop that fills \<open>responseHeaders\<close>.\<close>

definition hop_by_hop :: "string list" where
  "hop_by_hop = [''transfer-encoding'', ''connection'', ''keep-alive'']"

definition responseHeaders :: "(string \<times> string) list \<Rightarrow> (string \<times> string) list" where
  "responseHeaders entries =
     fold (\<lambda>(key, v) hs.
             if toLowerCase key \<in> set hop_by_hop then hs else headers_set key v hs)
          entries []"

text \<open>Lines 60 to 64: the body handed to the constructor is \<open>proxyResponse.body\<close>.\<close>

definition relayed_body :: "'b option \<Rightarrow> 'b body_init" where
  "relayed_body b = (case b of None \<Rightarrow> BodyNull | Some stream \<Rightarrow> BodyStream stream)"

text \<open>
  The handler. \<open>url_host u\<close> is \<open>new URL(u).host\<close>, \<open>None\<close> when the constructor throws;
  \<open>fetch\<close> returns \<open>Inl\<close> when the call rejects. Everything from the URL parser to the
  \<open>Response\<close> constructor stands inside the \<open>try\<close> block, so each failure ends in the
  \<open>catch\<close> branch. The result pairs the list of \<open>fetch\<close> calls that were issued with the
  \<open>Response\<close> returned.
\<close>

definition proxyRequest ::
  "env \<Rightarrow> (string \<Rightarrow> string option) \<Rightarrow> (fetch_call \<Rightarrow> exn + 'b fetched) \<Rightarrow> request
     \<Rightarrow> fetch_call list \<times> 'b response" where
  "proxyRequest e url_host fetch request =
     (case internalApiUrl e of
        None \<Rightarrow> ([], json_error_response 500 ''API URL not configured'')
      | Some base \<Rightarrow>
          if base = [] then ([], json_error_response 500 ''API URL not configured'')
          else
            (case url_host base of
               None \<Rightarrow> ([], json_error_response 502 ''Proxy request failed'')
             | Some host \<Rightarrow>
                 (case fetch_init base host request of
                    Inl error \<Rightarrow> ([], json_error_response 502 ''Proxy request failed'')
                  | Inr init \<Rightarrow>
                      (case fetch init of
                         Inl error \<Rightarrow>
                           ([init], json_error_response 502 ''Proxy request failed'')
                       | Inr proxyResponse \<Rightarrow>
                           (case new_Response (relayed_body (fetched_body proxyResponse))
                                   (fetched_status proxyResponse)
                                   (fetched_statusText proxyResponse)
                                   (responseHeaders (fetched_headers proxyResponse)) of
                              Inl error \<Rightarrow>
                                ([init], json_error_response 502 ''Proxy request failed'')
                            | Inr relayed \<Rightarrow> ([init], relayed))))))"

text \<open>
  The outbound call fails: \<open>new URL(internalApiUrl)\<close> throws, or \<open>fetch\<close> rejects the
  call that the handler builds.
\<close>

definition outbound_call_fails ::
  "(string \<Rightarrow> string option) \<Rightarrow> (fetch_call \<Rightarrow> exn + 'b fetched) \<Rightarrow> string \<Rightarrow> request \<Rightarrow> bool" where
  "outbound_call_fails url_host fetch base request =
     (case url_host base of
        None \<Rightarrow> True
      | Some host \<Rightarrow>
          (case fetch_init base host request of
             Inl error \<Rightarrow> False
           | Inr init \<Rightarrow> isl (fetch init)))"

text \<open>
  Line 46 is reached and \<open>request.text()\<close> rejects, so that the handler never gets as far
  as \<open>fetch\<close>. This cannot happen for GET and HEAD, where the body is not read.
\<close>

definition text_rejects :: "request \<Rightarrow> bool" where
  "text_rejects request =
     (req_method request \<noteq> ''GET'' \<and> req_method request \<noteq> ''HEAD'' \<and> isl (req_body request))"

section \<open>Properties\<close>

subsection \<open>Auxiliary facts\<close>

lemmas handler_defs = proxyRequest_def internalApiUrl_def logical_or_def fetch_init_def request_text_def utf8_decode_def utf8_encode_def utf8_encode_code_point_def fetch_body_bytes_def targetUrl_def pathAfterProxy_def fromEntries_def responseHeaders_def hop_by_hop_def json_error_response_def headers_set_def headers_get_def toLowerCase_def char_toLowerCase_def JSON_stringify_error_def new_Response_def relayed_body_def reason_phrase_def null_body_status_def relayable_def text_rejects_def outbound_call_fails_def

lemma pathAfterProxy_cases:
  assumes "prefix ''/api/op'' P"
  shows "P = ''/api/op/'' @ pathAfterProxy P
       \<or> (P = ''/api/op'' @ pathAfterProxy P \<and> \<not> prefix ''/'' (pathAfterProxy P))"
proof -
  from assms obtain r where P: "P = ''/api/op'' @ r" by (auto simp: prefix_def)
  show ?thesis
  proof (cases r)
    case Nil
    with P show ?thesis by (simp add: pathAfterProxy_def)
  next
    case (Cons c rest)
    with P show ?thesis by (cases "c = CHR ''/''") (simp_all add: pathAfterProxy_def)
  qed
qed

lemma fetch_init_cases:
  "fetch_init base h request =
     (if text_rejects request then Inl (projl (req_body request))
      else Inr \<lparr>fetch_url = targetUrl base (pathname request) (search request),
                fetch_method = req_method request,
                fetch_headers = (fromEntries (req_headers request))(''host'' \<mapsto> h),
                fetch_body =
                  (if req_method request \<noteq> ''GET'' \<and> req_method request \<noteq> ''HEAD''
                   then Some (utf8_decode (projr (req_body request))) else None)\<rparr>)"
  by (cases "req_body request") (simp_all add: fetch_init_def request_text_def text_rejects_def)

lemma proxyRequest_calls:
  assumes "internalApiUrl e = Some base" "base \<noteq> []" "url_host base = Some h"
  shows "fst (proxyRequest e url_host fetch request)
           = (case fetch_init base h request of Inl error \<Rightarrow> [] | Inr init \<Rightarrow> [init])"
  using assms by (simp add: proxyRequest_def split: sum.splits)

lemma json_error_response_eval:
  "json_error_response code msg =
     \<lparr>status = code, statusText = [], headers = [(''content-type'', ''application/json'')],
      body = BodyText (''{\"error\":\"'' @ msg @ ''\"}'')\<rparr>"
  by (simp add: json_error_response_def headers_set_def toLowerCase_def char_toLowerCase_def
      JSON_stringify_error_def)

lemma internalApiUrl_unset:
  assumes "\<not> truthy (INTERNAL_API_URL e)" "\<not> truthy (API_URL e)"
  shows "internalApiUrl e = None \<or> internalApiUrl e = Some []"
  using assms by (cases "API_URL e") (simp_all add: internalApiUrl_def logical_or_def)

lemma map_of_fromEntries_fold:
  "fold (\<lambda>(k, v) obj. obj(k \<mapsto> v)) es m = m ++ map_of (rev es)"
  by (induction es arbitrary: m) (auto simp: map_add_def fun_eq_iff split: option.splits)

lemma fromEntries_map_of: "fromEntries es = map_of (rev es)"
  by (simp add: fromEntries_def map_of_fromEntries_fold)

lemma fromEntries_distinct:
  assumes "distinct (map fst es)"
  shows "fromEntries es = map_of es"
proof
  fix k
  show "fromEntries es k = map_of es k"
  proof (cases "map_of es k")
    case None
    then have "map_of (rev es) k = None" by (metis map_of_eq_None_iff set_rev)
    with None show ?thesis by (simp add: fromEntries_map_of)
  next
    case (Some v)
    then have "(k, v) \<in> set (rev es)" by (auto dest: map_of_SomeD)
    moreover from assms have "distinct (map fst (rev es))" by (simp add: rev_map[symmetric])
    ultimately have "map_of (rev es) k = Some v" by (simp add: map_of_is_SomeI)
    with Some show ?thesis by (simp add: fromEntries_map_of)
  qed
qed

lemma mod_offset: "a < n \<Longrightarrow> (k * n + a) mod n = (a::nat)"
  by simp

lemma decoder_two_bytes:
  assumes "2 \<le> a" "a \<le> 31" "r < 64"
  shows "utf8_decoder 0 0 0 0x80 0xBF ((0xC0 + a) # (0x80 + r) # bs)
           = (a * 64 + r) # utf8_decoder 0 0 0 0x80 0xBF bs"
proof -
  have m1: "(0xC0 + a) mod 32 = a" using mod_offset[of a 32 6] assms by simp
  have m2: "(0x80 + r) mod 64 = r" using mod_offset[of r 64 2] assms by simp
  show ?thesis using assms by (simp add: m1 m2)
qed

lemma decoder_three_bytes:
  assumes "a \<le> 15" "m < 64" "r < 64" "a = 0 \<longrightarrow> 32 \<le> m" "a = 13 \<longrightarrow> m < 32"
  shows "utf8_decoder 0 0 0 0x80 0xBF ((0xE0 + a) # (0x80 + m) # (0x80 + r) # bs)
           = ((a * 64 + m) * 64 + r) # utf8_decoder 0 0 0 0x80 0xBF bs"
proof -
  have m1: "(0xE0 + a) mod 16 = a" using mod_offset[of a 16 14] assms by simp
  have m2: "(0x80 + m) mod 64 = m" using mod_offset[of m 64 2] assms by simp
  have m3: "(0x80 + r) mod 64 = r" using mod_offset[of r 64 2] assms by simp
  show ?thesis using assms by (auto simp add: m1 m2 m3)
qed

lemma decoder_four_bytes:
  assumes "a \<le> 4" "n < 64" "m < 64" "r < 64" "a = 0 \<longrightarrow> 16 \<le> n" "a = 4 \<longrightarrow> n < 16"
  shows "utf8_decoder 0 0 0 0x80 0xBF
           ((0xF0 + a) # (0x80 + n) # (0x80 + m) # (0x80 + r) # bs)
           = (((a * 64 + n) * 64 + m) * 64 + r) # utf8_decoder 0 0 0 0x80 0xBF bs"
proof -
  have m1: "(0xF0 + a) mod 8 = a" using mod_offset[of a 8 30] assms by simp
  have m2: "(0x80 + n) mod 64 = n" using mod_offset[of n 64 2] assms by simp
  have m3: "(0x80 + m) mod 64 = m" using mod_offset[of m 64 2] assms by simp
  have m4: "(0x80 + r) mod 64 = r" using mod_offset[of r 64 2] assms by simp
  show ?thesis using assms by (auto simp add: m1 m2 m3 m4)
qed

lemma decode_encode_code_point:
  assumes "scalar_value c"
  shows "utf8_decoder 0 0 0 0x80 0xBF (utf8_encode_code_point c @ bs)
           = c # utf8_decoder 0 0 0 0x80 0xBF bs"
proof -
  define r where "r = c mod 64"
  define q where "q = c div 64"
  have c: "c = q * 64 + r" and r: "r < 64" by (simp_all add: q_def r_def)
  consider "c \<le> 0x7F" | "0x7F < c" "c \<le> 0x7FF" | "0x7FF < c" "c \<le> 0xFFFF" | "0xFFFF < c"
    by linarith
  then show ?thesis
  proof cases
    case 1
    then show ?thesis by (simp add: utf8_encode_code_point_def)
  next
    case 2
    with c r have q: "2 \<le> q" "q \<le> 31" by linarith+
    have "utf8_encode_code_point c = [0xC0 + q, 0x80 + r]"
      using 2 by (simp add: utf8_encode_code_point_def q_def r_def)
    with decoder_two_bytes[OF q r, of bs] show ?thesis by (simp add: c)
  next
    case 3
    define m where "m = q mod 64"
    define a where "a = q div 64"
    have q: "q = a * 64 + m" and m: "m < 64" by (simp_all add: a_def m_def)
    have a_eq: "c div 4096 = a"
      using div_mult2_eq[of c 64 64] by (simp add: a_def q_def)
    from 3 c q r m have a: "a \<le> 15" by linarith
    have lo: "a = 0 \<longrightarrow> 32 \<le> m" using 3 c q r by linarith
    have "c < 0xD800 \<or> 0xE000 \<le> c" using assms by (auto simp add: scalar_value_def)
    with c q r m have hi: "a = 13 \<longrightarrow> m < 32" by linarith
    have "utf8_encode_code_point c = [0xE0 + a, 0x80 + m, 0x80 + r]"
      using 3 a_eq by (simp add: utf8_encode_code_point_def m_def q_def r_def)
    with decoder_three_bytes[OF a m r lo hi, of bs] show ?thesis by (simp add: c q)
  next
    case 4
    define m where "m = q mod 64"
    define p where "p = q div 64"
    define n where "n = p mod 64"
    define a where "a = p div 64"
    have q: "q = p * 64 + m" and m: "m < 64" by (simp_all add: p_def m_def)
    have p: "p = a * 64 + n" and n: "n < 64" by (simp_all add: a_def n_def)
    have p_eq: "c div 4096 = p"
      using div_mult2_eq[of c 64 64] by (simp add: p_def q_def)
    have a_eq: "c div 262144 = a"
      using div_mult2_eq[of c 4096 64] p_eq by (simp add: a_def)
    from assms 4 have c_hi: "c < 0x110000" by (simp add: scalar_value_def)
    with c q p r m n have a: "a \<le> 4" by linarith
    have lo: "a = 0 \<longrightarrow> 16 \<le> n" using 4 c q p r m by linarith
    have hi: "a = 4 \<longrightarrow> n < 16" using c_hi c q p by linarith
    have "utf8_encode_code_point c = [0xF0 + a, 0x80 + n, 0x80 + m, 0x80 + r]"
      using 4 a_eq p_eq by (simp add: utf8_encode_code_point_def n_def m_def q_def r_def)
    with decoder_four_bytes[OF a n m r lo hi, of bs] show ?thesis by (simp add: c q p)
  qed
qed

lemma decoder_encode:
  "list_all scalar_value s \<Longrightarrow> utf8_decoder 0 0 0 0x80 0xBF (utf8_encode s) = s"
proof (induction s)
  case Nil
  then show ?case by (simp add: utf8_encode_def)
next
  case (Cons c s)
  then have "utf8_decoder 0 0 0 0x80 0xBF (utf8_encode_code_point c @ utf8_encode s)
               = c # utf8_decoder 0 0 0 0x80 0xBF (utf8_encode s)"
    by (simp add: decode_encode_code_point)
  with Cons show ?case by (simp add: utf8_encode_def)
qed

lemma encode_no_bom:
  assumes "prefix [0xEF, 0xBB, 0xBF] (utf8_encode s)"
  shows "prefix [0xFEFF] s"
proof (cases s)
  case Nil
  with assms show ?thesis by (simp add: utf8_encode_def)
next
  case (Cons c s')
  have "c = 0xFEFF"
  proof -
    consider "c \<le> 0x7F" | "0x7F < c" "c \<le> 0x7FF" | "0x7FF < c" "c \<le> 0xFFFF" | "0xFFFF < c"
      by linarith
    then show ?thesis
    proof cases
      case 1
      with assms Cons show ?thesis by (simp add: utf8_encode_def utf8_encode_code_point_def)
    next
      case 2
      with assms Cons have "0xC0 + c div 64 = (0xEF::nat)"
        by (simp add: utf8_encode_def utf8_encode_code_point_def)
      with 2 show ?thesis by linarith
    next
      case 3
      with assms Cons have b: "0xE0 + c div 4096 = (0xEF::nat)"
        "0x80 + c div 64 mod 64 = (0xBB::nat)" "0x80 + c mod 64 = (0xBF::nat)"
        by (simp_all add: utf8_encode_def utf8_encode_code_point_def)
      have "c = (c div 64) * 64 + c mod 64" by simp
      moreover have "c div 64 = (c div 64 div 64) * 64 + c div 64 mod 64" by simp
      moreover have "c div 64 div 64 = c div 4096"
        using div_mult2_eq[of c 64 64] by simp
      ultimately show ?thesis using b by linarith
    next
      case 4
      with assms Cons have "0xF0 + c div 262144 = (0xEF::nat)"
        by (simp add: utf8_encode_def utf8_encode_code_point_def)
      then show ?thesis by linarith
    qed
  qed
  with Cons show ?thesis by simp
qed

lemma utf8_roundtrip:
  assumes "list_all scalar_value s" and "\<not> prefix [0xFEFF] s"
  shows "utf8_decode (utf8_encode s) = s"
  using assms encode_no_bom[of s] by (auto simp: utf8_decode_def decoder_encode)


lemma responseHeaders_fold_keys:
  assumes "\<forall>k \<in> fst ` set acc. k \<notin> set hop_by_hop"
  shows "\<forall>k \<in> fst ` set (fold (\<lambda>(key, v) hs.
             if toLowerCase key \<in> set hop_by_hop then hs else headers_set key v hs) es acc).
           k \<notin> set hop_by_hop"
  using assms
proof (induction es arbitrary: acc)
  case Nil
  then show ?case by simp
next
  case (Cons x es)
  obtain k v where x: "x = (k, v)" by (cases x)
  show ?case
  proof (cases "toLowerCase k \<in> set hop_by_hop")
    case True
    with Cons.IH[OF Cons.prems] x show ?thesis by simp
  next
    case False
    have "fst ` set (headers_set k v acc) = {toLowerCase k} \<union> fst ` set acc"
      by (simp add: headers_set_def dom_update)
    with Cons.prems False
    have "\<forall>k' \<in> fst ` set (headers_set k v acc). k' \<notin> set hop_by_hop" by simp
    from Cons.IH[OF this] x False show ?thesis by simp
  qed
qed

lemma responseHeaders_no_hop:
  assumes "toLowerCase n \<in> set hop_by_hop"
  shows "headers_get (responseHeaders es) n = None"
proof -
  have "\<forall>k \<in> fst ` set (responseHeaders es). k \<notin> set hop_by_hop"
    unfolding responseHeaders_def by (rule responseHeaders_fold_keys) simp
  with assms have "toLowerCase n \<notin> fst ` set (responseHeaders es)" by blast
  then show ?thesis
    by (simp add: headers_get_def map_of_eq_None_iff)
qed

lemma responseHeaders_fold_map_of:
  "map_of (fold (\<lambda>(key, v) hs.
             if toLowerCase key \<in> set hop_by_hop then hs else headers_set key v hs) es acc)
    = map_of acc ++ map_of (rev (map (\<lambda>(k, v). (toLowerCase k, v))
                                  (filter (\<lambda>(k, v). toLowerCase k \<notin> set hop_by_hop) es)))"
proof (induction es arbitrary: acc)
  case Nil
  then show ?case by simp
next
  case (Cons x es)
  obtain k v where x: "x = (k, v)" by (cases x)
  show ?case
  proof (cases "toLowerCase k \<in> set hop_by_hop")
    case True
    with Cons.IH[of acc] x show ?thesis by simp
  next
    case False
    have "map_of (headers_set k v acc) = (map_of acc)(toLowerCase k \<mapsto> v)"
      by (simp add: headers_set_def update_conv')
    with Cons.IH[of "headers_set k v acc"] x False show ?thesis
      by (auto simp: map_add_def fun_eq_iff split: option.splits)
  qed
qed

lemma responseHeaders_keeps:
  assumes dist: "distinct (map (toLowerCase \<circ> fst) es)"
    and mem: "(k, v) \<in> set es"
    and keep: "toLowerCase k \<notin> set hop_by_hop"
  shows "headers_get (responseHeaders es) k = Some v"
proof -
  let ?kept = "map (\<lambda>(k, v). (toLowerCase k, v))
                 (filter (\<lambda>(k, v). toLowerCase k \<notin> set hop_by_hop) es)"
  have "map fst ?kept = filter (\<lambda>n. n \<notin> set hop_by_hop) (map (toLowerCase \<circ> fst) es)"
    by (induction es) auto
  with dist have "distinct (map fst (rev ?kept))"
    by (simp add: rev_map[symmetric] del: map_map)
  moreover from mem keep have "(toLowerCase k, v) \<in> set (rev ?kept)" by force
  ultimately have "map_of (rev ?kept) (toLowerCase k) = Some v"
    by (rule map_of_is_SomeI)
  then show ?thesis
    by (simp add: headers_get_def responseHeaders_def responseHeaders_fold_map_of)
qed

lemma utf8_decode_encode:
  assumes "list_all scalar_value s" and "\<not> prefix [0xFEFF] s"
  shows "utf8_decode (utf8_encode s) = s"
  using assms encode_no_bom[of s] by (auto simp: utf8_decode_def decoder_encode)

lemma outbound_request:
  assumes "internalApiUrl e = Some base" and "base \<noteq> []" and "url_host base = Some h"
    and "\<not> text_rejects request"
  shows "map fetch_method (fst (proxyRequest e url_host fetch request)) = [req_method request]"
    and "map fetch_headers (fst (proxyRequest e url_host fetch request))
           = [(fromEntries (req_headers request))(''host'' \<mapsto> h)]"
  using proxyRequest_calls[OF assms(1,2), of url_host h fetch request] assms(3,4)
  by (simp_all add: fetch_init_cases)

lemma new_Response_relayable:
  "relayable r \<Longrightarrow>
     new_Response (relayed_body (fetched_body r)) (fetched_status r) (fetched_statusText r) hs
       = Inr \<lparr>status = fetched_status r, statusText = fetched_statusText r,
               headers = hs, body = relayed_body (fetched_body r)\<rparr>"
  by (cases "fetched_body r") (auto simp: new_Response_def relayable_def relayed_body_def)

lemma new_Response_not_relayable:
  "\<not> relayable r \<Longrightarrow>
     isl (new_Response (relayed_body (fetched_body r)) (fetched_status r)
            (fetched_statusText r) hs)"
  by (cases "fetched_body r") (auto simp: new_Response_def relayable_def relayed_body_def)

lemma json_error_response_constructed:
  assumes "code = 500 \<or> code = 502"
  shows "new_Response (BodyText (JSON_stringify_error ''API URL not configured'')) code []
           (headers_set ''Content-Type'' ''application/json'' [])
         = Inr (json_error_response code ''API URL not configured'')"
    and "new_Response (BodyText (JSON_stringify_error ''Proxy request failed'')) code []
           (headers_set ''Content-Type'' ''application/json'' [])
         = Inr (json_error_response code ''Proxy request failed'')"
  using assms
  by (auto simp: new_Response_def json_error_response_def reason_phrase_def
      null_body_status_def)

subsection \<open>The rewritten URL\<close>

text \<open>
  C3. The inbound request \<open>GET /api/op/users/42?active=true\<close> with the base URL
  \<open>http://api.internal:8080\<close> is sent to
  \<open>http://api.internal:8080/users/42?active=true\<close>.
\<close>

theorem target_url_scenario:
  "targetUrl ''http://api.internal:8080'' ''/api/op/users/42'' ''?active=true''
     = ''http://api.internal:8080/users/42?active=true''"
  by (simp add: targetUrl_def pathAfterProxy_def)

text \<open>
  C4, as it is written, says that the target is the base URL followed directly by the
  remainder and the query string, and that \<open>/api/op/\<close> never occurs in the target.
  Neither holds for the path \<open>/api/op/api/op/x\<close>: the handler puts a \<open>/\<close> between base
  and remainder, and it removes the prefix once, so the second \<open>/api/op/\<close> of the path
  is part of the target.
\<close>

theorem target_url_prefix_counterexample:
  "prefix ''/api/op'' ''/api/op/api/op/x''
   \<and> targetUrl ''http://api.internal:8080'' ''/api/op/api/op/x'' ''''
       \<noteq> ''http://api.internal:8080'' @ pathAfterProxy ''/api/op/api/op/x'' @ ''''
   \<and> sublist ''/api/op/'' (targetUrl ''http://api.internal:8080'' ''/api/op/api/op/x'' '''')"
  by (simp add: targetUrl_def pathAfterProxy_def sublist_Cons_right)

text \<open>
  C4, amended. For every inbound path \<open>P\<close> that begins with \<open>/api/op\<close>, the target is the
  base URL, a \<open>/\<close>, the remainder and the query string, where the remainder is \<open>P\<close>
  without its leading \<open>/api/op\<close> and without one \<open>/\<close> that follows it directly: either
  \<open>P\<close> is \<open>/api/op/\<close> followed by the remainder, or \<open>P\<close> is \<open>/api/op\<close> followed by the
  remainder and the remainder does not begin with \<open>/\<close>. The prefix is removed at the
  start of the path only.
\<close>

theorem target_url_strips_prefix_once:
  assumes "prefix ''/api/op'' P"
  shows "targetUrl base P q = base @ ''/'' @ pathAfterProxy P @ q
       \<and> (P = ''/api/op/'' @ pathAfterProxy P
          \<or> (P = ''/api/op'' @ pathAfterProxy P \<and> \<not> prefix ''/'' (pathAfterProxy P)))"
  using pathAfterProxy_cases[OF assms] by (simp add: targetUrl_def)

theorem target_url_strips_prefix_once_witness:
  "prefix ''/api/op'' ''/api/op/users/42''
   \<and> targetUrl ''http://api.internal:8080'' ''/api/op/users/42'' ''?active=true''
       = ''http://api.internal:8080'' @ ''/'' @ ''users/42'' @ ''?active=true''
   \<and> pathAfterProxy ''/api/op/users/42'' = ''users/42''"
  using target_url_strips_prefix_once[of "''/api/op/users/42''" "''http://api.internal:8080''" "''?active=true''"]
  by (simp add: pathAfterProxy_def)

text \<open>
  C10. For every request with a configured base URL the target is the base URL, a
  \<open>/\<close>, the remainder and the query string: the \<open>/\<close> is always put in. No \<open>fetch\<close> call
  goes anywhere else, and the call is made unless reading the request body fails, which
  cannot happen for GET and HEAD. So a base URL that ends with \<open>/\<close> gives \<open>//\<close> before
  the remainder, and the bare mount paths \<open>/api/op\<close> and \<open>/api/op/\<close> give the base URL, a
  \<open>/\<close> and the query string.
\<close>

theorem slash_always_inserted:
  assumes "internalApiUrl e = Some base" and "base \<noteq> []" and "url_host base = Some h"
  shows "(\<forall>call \<in> set (fst (proxyRequest e url_host fetch request)).
            fetch_url call = base @ ''/'' @ pathAfterProxy (pathname request) @ search request)
       \<and> (\<not> text_rejects request \<longrightarrow>
            map fetch_url (fst (proxyRequest e url_host fetch request))
              = [base @ ''/'' @ pathAfterProxy (pathname request) @ search request])
       \<and> (\<not> text_rejects request \<and> suffix ''/'' base \<longrightarrow>
            map fetch_url (fst (proxyRequest e url_host fetch request))
              = [butlast base @ ''//'' @ pathAfterProxy (pathname request) @ search request])
       \<and> (\<not> text_rejects request
            \<and> (pathname request = ''/api/op'' \<or> pathname request = ''/api/op/'') \<longrightarrow>
            map fetch_url (fst (proxyRequest e url_host fetch request))
              = [base @ ''/'' @ search request])"
proof -
  have calls: "\<forall>call \<in> set (fst (proxyRequest e url_host fetch request)).
            fetch_url call = base @ ''/'' @ pathAfterProxy (pathname request) @ search request"
    using proxyRequest_calls[OF assms(1,2), of url_host h fetch request] assms(3)
    by (simp add: fetch_init_cases targetUrl_def)
  have url: "map fetch_url (fst (proxyRequest e url_host fetch request))
           = [base @ ''/'' @ pathAfterProxy (pathname request) @ search request]"
    if "\<not> text_rejects request"
    using that proxyRequest_calls[OF assms(1,2), of url_host h fetch request] assms(3)
    by (simp add: fetch_init_cases targetUrl_def)
  have "base = butlast base @ ''/''" if "suffix ''/'' base"
    using that by (auto simp: suffix_def)
  then have "base @ ''/'' = butlast base @ ''//''" if "suffix ''/'' base"
    using that by (metis append.assoc append_Cons append_Nil)
  moreover have "pathAfterProxy ''/api/op'' = []" "pathAfterProxy ''/api/op/'' = []"
    by (simp_all add: pathAfterProxy_def)
  ultimately show ?thesis using calls url by auto
qed

theorem slash_always_inserted_witness:
  "internalApiUrl \<lparr>INTERNAL_API_URL = Some ''http://api.internal:8080/'', API_URL = None\<rparr>
     = Some ''http://api.internal:8080/''
   \<and> \<not> text_rejects
        \<lparr>req_method = ''GET'', pathname = ''/api/op'', search = ''?active=true'',
         req_headers = [], req_body = Inr []\<rparr>
   \<and> suffix ''/'' ''http://api.internal:8080/''
   \<and> map fetch_url (fst (proxyRequest
        \<lparr>INTERNAL_API_URL = Some ''http://api.internal:8080/'', API_URL = None\<rparr>
        (\<lambda>u. Some ''api.internal:8080'')
        (\<lambda>c. Inl (TypeError ''fetch failed'') :: exn + string fetched)
        \<lparr>req_method = ''GET'', pathname = ''/api/op'', search = ''?active=true'',
         req_headers = [], req_body = Inr []\<rparr>))
       = [''http://api.internal:8080//?active=true'']"
  using slash_always_inserted[of
        "\<lparr>INTERNAL_API_URL = Some ''http://api.internal:8080/'', API_URL = None\<rparr>"
        "''http://api.internal:8080/''"
        "\<lambda>u. Some ''api.internal:8080''"
        "''api.internal:8080''"
        "\<lambda>c. Inl (TypeError ''fetch failed'') :: exn + string fetched"
        "\<lparr>req_method = ''GET'', pathname = ''/api/op'', search = ''?active=true'',
         req_headers = [], req_body = Inr []\<rparr>"]
  by (simp add: handler_defs suffix_def)

subsection \<open>Missing configuration\<close>

text \<open>
  C1. When neither \<open>INTERNAL_API_URL\<close> nor \<open>API_URL\<close> gives a base URL, the handler
  returns, for every request, status 500 with the body
  \<open>{"error":"API URL not configured"}\<close> and the header
  \<open>Content-Type: application/json\<close>, and it issues no \<open>fetch\<close> call.
\<close>

theorem configuration_missing_500:
  assumes "\<not> truthy (INTERNAL_API_URL e)" and "\<not> truthy (API_URL e)"
  shows "fst (proxyRequest e url_host fetch request) = []
       \<and> status (snd (proxyRequest e url_host fetch request)) = 500
       \<and> body (snd (proxyRequest e url_host fetch request))
           = BodyText ''{\"error\":\"API URL not configured\"}''
       \<and> headers (snd (proxyRequest e url_host fetch request))
           = [(''content-type'', ''application/json'')]
       \<and> headers_get (headers (snd (proxyRequest e url_host fetch request))) ''Content-Type''
           = Some ''application/json''"
proof -
  have "proxyRequest e url_host fetch request
          = ([], json_error_response 500 ''API URL not configured'')"
    using internalApiUrl_unset[OF assms] by (auto simp: proxyRequest_def)
  then show ?thesis
    by (simp add: json_error_response_eval headers_get_def toLowerCase_def char_toLowerCase_def)
qed

theorem configuration_missing_500_witness:
  "\<not> truthy (INTERNAL_API_URL \<lparr>INTERNAL_API_URL = None, API_URL = Some []\<rparr>)
   \<and> \<not> truthy (API_URL \<lparr>INTERNAL_API_URL = None, API_URL = Some []\<rparr>)
   \<and> fst (proxyRequest \<lparr>INTERNAL_API_URL = None, API_URL = Some []\<rparr>
            (\<lambda>u. Some ''api.internal:8080'')
            (\<lambda>c. Inr \<lparr>fetched_status = 200, fetched_statusText = ''OK'',
                        fetched_headers = [], fetched_body = Some ''[]''\<rparr>)
            \<lparr>req_method = ''POST'', pathname = ''/api/op/users'', search = [],
             req_headers = [(''content-type'', ''application/json'')],
             req_body = Inr [0x7B, 0x7D]\<rparr>) = []
   \<and> status (snd (proxyRequest \<lparr>INTERNAL_API_URL = None, API_URL = Some []\<rparr>
            (\<lambda>u. Some ''api.internal:8080'')
            (\<lambda>c. Inr \<lparr>fetched_status = 200, fetched_statusText = ''OK'',
                        fetched_headers = [], fetched_body = Some ''[]''\<rparr>)
            \<lparr>req_method = ''POST'', pathname = ''/api/op/users'', search = [],
             req_headers = [(''content-type'', ''application/json'')],
             req_body = Inr [0x7B, 0x7D]\<rparr>)) = 500"
  using configuration_missing_500[of "\<lparr>INTERNAL_API_URL = None, API_URL = Some []\<rparr>"
      "\<lambda>u. Some ''api.internal:8080''"
      "\<lambda>c. Inr \<lparr>fetched_status = 200, fetched_statusText = ''OK'',
                        fetched_headers = [], fetched_body = Some ''[]''\<rparr>"
      "\<lparr>req_method = ''POST'', pathname = ''/api/op/users'', search = [],
             req_headers = [(''content-type'', ''application/json'')],
             req_body = Inr [0x7B, 0x7D]\<rparr>"]
  by simp

text \<open>
  C9. An environment variable that holds the empty string counts as unset: the handler
  behaves the same whether a variable is empty or absent. With an empty
  \<open>INTERNAL_API_URL\<close> the handler does what it does with \<open>INTERNAL_API_URL\<close> set to the
  value of \<open>API_URL\<close>: when \<open>API_URL\<close> holds a base URL, the \<open>fetch\<close> call goes to that
  base URL. With both variables empty or absent the handler answers with the 500
  response and calls no backend.
\<close>

theorem empty_variable_is_unset:
  "proxyRequest (e\<lparr>INTERNAL_API_URL := Some []\<rparr>) url_host fetch request
     = proxyRequest (e\<lparr>INTERNAL_API_URL := None\<rparr>) url_host fetch request
   \<and> proxyRequest (e\<lparr>API_URL := Some []\<rparr>) url_host fetch request
     = proxyRequest (e\<lparr>API_URL := None\<rparr>) url_host fetch request
   \<and> (INTERNAL_API_URL e = Some [] \<longrightarrow> internalApiUrl e = API_URL e)
   \<and> (INTERNAL_API_URL e = Some [] \<longrightarrow>
        proxyRequest e url_host fetch request
          = proxyRequest (e\<lparr>INTERNAL_API_URL := API_URL e\<rparr>) url_host fetch request)
   \<and> ((INTERNAL_API_URL e = None \<or> INTERNAL_API_URL e = Some [])
        \<and> API_URL e = Some u \<and> u \<noteq> [] \<and> url_host u = Some h
        \<and> fetch_init u h request = Inr init \<longrightarrow>
        fst (proxyRequest e url_host fetch request) = [init]
        \<and> fetch_url init = u @ ''/'' @ pathAfterProxy (pathname request) @ search request)
   \<and> ((INTERNAL_API_URL e = None \<or> INTERNAL_API_URL e = Some [])
        \<and> (API_URL e = None \<or> API_URL e = Some []) \<longrightarrow>
        proxyRequest e url_host fetch request
          = ([], json_error_response 500 ''API URL not configured''))"
proof -
  have used: "fst (proxyRequest e url_host fetch request) = [init]
        \<and> fetch_url init = u @ ''/'' @ pathAfterProxy (pathname request) @ search request"
    if "INTERNAL_API_URL e = None \<or> INTERNAL_API_URL e = Some []"
      and "API_URL e = Some u" "u \<noteq> []" "url_host u = Some h"
      and "fetch_init u h request = Inr init"
  proof -
    from that(1,2) have "internalApiUrl e = Some u"
      by (auto simp: internalApiUrl_def logical_or_def)
    from proxyRequest_calls[of e u url_host h fetch request] this that(3,4,5)
    have "fst (proxyRequest e url_host fetch request) = [init]" by simp
    moreover from that(5)
    have "fetch_url init = u @ ''/'' @ pathAfterProxy (pathname request) @ search request"
      by (auto simp: fetch_init_cases targetUrl_def split: if_splits)
    ultimately show ?thesis by simp
  qed
  have rest: "proxyRequest (e\<lparr>INTERNAL_API_URL := Some []\<rparr>) url_host fetch request
     = proxyRequest (e\<lparr>INTERNAL_API_URL := None\<rparr>) url_host fetch request
   \<and> proxyRequest (e\<lparr>API_URL := Some []\<rparr>) url_host fetch request
     = proxyRequest (e\<lparr>API_URL := None\<rparr>) url_host fetch request
   \<and> (INTERNAL_API_URL e = Some [] \<longrightarrow> internalApiUrl e = API_URL e)
   \<and> (INTERNAL_API_URL e = Some [] \<longrightarrow>
        proxyRequest e url_host fetch request
          = proxyRequest (e\<lparr>INTERNAL_API_URL := API_URL e\<rparr>) url_host fetch request)
   \<and> ((INTERNAL_API_URL e = None \<or> INTERNAL_API_URL e = Some [])
        \<and> (API_URL e = None \<or> API_URL e = Some []) \<longrightarrow>
        proxyRequest e url_host fetch request
          = ([], json_error_response 500 ''API URL not configured''))"
    by (auto simp: proxyRequest_def internalApiUrl_def logical_or_def)
  from used rest show ?thesis by blast
qed

theorem empty_variable_is_unset_witness:
  "INTERNAL_API_URL \<lparr>INTERNAL_API_URL = Some [], API_URL = Some ''http://api:3000''\<rparr> = Some []
   \<and> fetch_init ''http://api:3000'' ''api:3000''
        \<lparr>req_method = ''GET'', pathname = ''/api/op/users'', search = [],
         req_headers = [], req_body = Inr []\<rparr>
       = Inr \<lparr>fetch_url = ''http://api:3000/users'', fetch_method = ''GET'',
              fetch_headers = [''host'' \<mapsto> ''api:3000''], fetch_body = None\<rparr>
   \<and> fst (proxyRequest \<lparr>INTERNAL_API_URL = Some [], API_URL = Some ''http://api:3000''\<rparr>
         (\<lambda>u. Some ''api:3000'')
         (\<lambda>c. Inl (TypeError ''fetch failed'') :: exn + string fetched)
         \<lparr>req_method = ''GET'', pathname = ''/api/op/users'', search = [],
          req_headers = [], req_body = Inr []\<rparr>)
       = [\<lparr>fetch_url = ''http://api:3000/users'', fetch_method = ''GET'',
           fetch_headers = [''host'' \<mapsto> ''api:3000''], fetch_body = None\<rparr>]
   \<and> (proxyRequest \<lparr>INTERNAL_API_URL = Some [], API_URL = Some []\<rparr>
         (\<lambda>u. Some ''api:3000'')
         (\<lambda>c. Inl (TypeError ''fetch failed'') :: exn + string fetched)
         \<lparr>req_method = ''GET'', pathname = ''/api/op/users'', search = [],
          req_headers = [], req_body = Inr []\<rparr>)
       = ([], \<lparr>status = 500, statusText = [],
               headers = [(''content-type'', ''application/json'')],
               body = BodyText ''{\"error\":\"API URL not configured\"}''\<rparr>)"
  using empty_variable_is_unset[of
          "\<lparr>INTERNAL_API_URL = Some [], API_URL = Some ''http://api:3000''\<rparr>"
          "\<lambda>u. Some ''api:3000''"
          "\<lambda>c. Inl (TypeError ''fetch failed'') :: exn + string fetched"
          "\<lparr>req_method = ''GET'', pathname = ''/api/op/users'', search = [],
            req_headers = [], req_body = Inr []\<rparr>"
          "''http://api:3000''" "''api:3000''"
          "\<lparr>fetch_url = ''http://api:3000/users'', fetch_method = ''GET'',
           fetch_headers = [''host'' \<mapsto> ''api:3000''], fetch_body = None\<rparr>"]
        empty_variable_is_unset[of
          "\<lparr>INTERNAL_API_URL = Some [], API_URL = Some []\<rparr>"
          "\<lambda>u. Some ''api:3000''"
          "\<lambda>c. Inl (TypeError ''fetch failed'') :: exn + string fetched"
          "\<lparr>req_method = ''GET'', pathname = ''/api/op/users'', search = [],
            req_headers = [], req_body = Inr []\<rparr>"]
  by (simp add: handler_defs)

subsection \<open>The outbound request\<close>

text \<open>
  C6, as it is written, says that for POST the inbound body is forwarded byte for byte.
  The handler reads the body with \<open>request.text()\<close>, which decodes the bytes as UTF-8, and
  \<open>fetch\<close> encodes the string again. Bytes that are not UTF-8 do not survive this: the
  body \<open>FF FE 00 41\<close> is sent on as \<open>EF BF BD EF BF BD 00 41\<close>.
\<close>

theorem request_body_bytes_counterexample:
  "map fetch_body_bytes (fst (proxyRequest
      \<lparr>INTERNAL_API_URL = Some ''http://api.internal:8080'', API_URL = None\<rparr>
      (\<lambda>u. Some ''api.internal:8080'')
      (\<lambda>c. Inr \<lparr>fetched_status = 200, fetched_statusText = ''OK'',
                  fetched_headers = [], fetched_body = Some ''ok''\<rparr>)
      \<lparr>req_method = ''POST'', pathname = ''/api/op/import'', search = [],
       req_headers = [], req_body = Inr [0xFF, 0xFE, 0x00, 0x41]\<rparr>))
     = [Some [0xEF, 0xBF, 0xBD, 0xEF, 0xBF, 0xBD, 0x00, 0x41]]
   \<and> [0xEF, 0xBF, 0xBD, 0xEF, 0xBF, 0xBD, 0x00, 0x41] \<noteq> [0xFF, 0xFE, 0x00, (0x41::nat)]"
  by (simp add: handler_defs)

text \<open>
  C6, amended. A GET request is forwarded without a body, whatever body it carried. For
  every method other than GET and HEAD the body is read in full as text: when the read
  succeeds, the outbound body is the string that UTF-8 decoding makes of the inbound
  bytes (a leading byte order mark dropped, every ill-formed sequence replaced by
  \<open>U+FFFD\<close>), sent as the UTF-8 encoding of that string. A body that is well-formed UTF-8
  and does not begin with a byte order mark is therefore sent byte for byte.
\<close>

theorem request_body_forwarding:
  assumes "internalApiUrl e = Some base" and "base \<noteq> []" and "url_host base = Some h"
  shows "(req_method request = ''GET'' \<longrightarrow>
            map fetch_body (fst (proxyRequest e url_host fetch request)) = [None])
       \<and> (req_method request \<noteq> ''GET'' \<and> req_method request \<noteq> ''HEAD''
            \<and> req_body request = Inr bytes \<longrightarrow>
            map fetch_body (fst (proxyRequest e url_host fetch request))
              = [Some (utf8_decode bytes)]
            \<and> map fetch_body_bytes (fst (proxyRequest e url_host fetch request))
              = [Some (utf8_encode (utf8_decode bytes))])
       \<and> (req_method request \<noteq> ''GET'' \<and> req_method request \<noteq> ''HEAD''
            \<and> req_body request = Inr (utf8_encode s)
            \<and> list_all scalar_value s \<and> \<not> prefix [0xFEFF] s \<longrightarrow>
            map fetch_body_bytes (fst (proxyRequest e url_host fetch request))
              = [Some (utf8_encode s)])"
  using proxyRequest_calls[OF assms(1,2), of url_host h fetch request] assms(3)
  by (auto simp: fetch_init_cases text_rejects_def fetch_body_bytes_def utf8_decode_encode)

theorem request_body_forwarding_witness:
  "internalApiUrl \<lparr>INTERNAL_API_URL = Some ''http://api.internal:8080'', API_URL = None\<rparr>
     = Some ''http://api.internal:8080''
   \<and> map fetch_body (fst (proxyRequest
        \<lparr>INTERNAL_API_URL = Some ''http://api.internal:8080'', API_URL = None\<rparr>
        (\<lambda>u. Some ''api.internal:8080'')
        (\<lambda>c. Inl (TypeError ''fetch failed'') :: exn + string fetched)
        \<lparr>req_method = ''GET'', pathname = ''/api/op/users'', search = [],
         req_headers = [], req_body = Inr [0x7B, 0x7D]\<rparr>)) = [None]
   \<and> list_all scalar_value [0x7B, 0xE9, 0x20AC, 0x1F600, 0x7D]
   \<and> \<not> prefix [0xFEFF] [0x7B, 0xE9, 0x20AC, 0x1F600, (0x7D::nat)]
   \<and> utf8_encode [0x7B, 0xE9, 0x20AC, 0x1F600, 0x7D]
       = [0x7B, 0xC3, 0xA9, 0xE2, 0x82, 0xAC, 0xF0, 0x9F, 0x98, 0x80, 0x7D]
   \<and> map fetch_body_bytes (fst (proxyRequest
        \<lparr>INTERNAL_API_URL = Some ''http://api.internal:8080'', API_URL = None\<rparr>
        (\<lambda>u. Some ''api.internal:8080'')
        (\<lambda>c. Inl (TypeError ''fetch failed'') :: exn + string fetched)
        \<lparr>req_method = ''POST'', pathname = ''/api/op/users'', search = [],
         req_headers = [],
         req_body = Inr [0x7B, 0xC3, 0xA9, 0xE2, 0x82, 0xAC, 0xF0, 0x9F, 0x98, 0x80, 0x7D]\<rparr>))
       = [Some [0x7B, 0xC3, 0xA9, 0xE2, 0x82, 0xAC, 0xF0, 0x9F, 0x98, 0x80, 0x7D]]"
  using request_body_forwarding[of
        "\<lparr>INTERNAL_API_URL = Some ''http://api.internal:8080'', API_URL = None\<rparr>"
        "''http://api.internal:8080''"
        "\<lambda>u. Some ''api.internal:8080''"
        "''api.internal:8080''"
        "\<lparr>req_method = ''GET'', pathname = ''/api/op/users'', search = [],
         req_headers = [], req_body = Inr [0x7B, 0x7D]\<rparr>"
        "\<lambda>c. Inl (TypeError ''fetch failed'') :: exn + string fetched"]
      request_body_forwarding[of
        "\<lparr>INTERNAL_API_URL = Some ''http://api.internal:8080'', API_URL = None\<rparr>"
        "''http://api.internal:8080''"
        "\<lambda>u. Some ''api.internal:8080''"
        "''api.internal:8080''"
        "\<lparr>req_method = ''POST'', pathname = ''/api/op/users'', search = [],
         req_headers = [],
         req_body = Inr [0x7B, 0xC3, 0xA9, 0xE2, 0x82, 0xAC, 0xF0, 0x9F, 0x98, 0x80, 0x7D]\<rparr>"
        "\<lambda>c. Inl (TypeError ''fetch failed'') :: exn + string fetched"
        "[0x7B, 0xC3, 0xA9, 0xE2, 0x82, 0xAC, 0xF0, 0x9F, 0x98, 0x80, 0x7D]"
        "[0x7B, 0xE9, 0x20AC, 0x1F600, 0x7D]"]
  by (simp add: handler_defs scalar_value_def)


subsection \<open>Failure of the outbound call\<close>

text \<open>
  C2. With a configured base URL, when the outbound call fails the handler returns
  status 502 with the body \<open>{"error":"Proxy request failed"}\<close> and the header
  \<open>Content-Type: application/json\<close>; it has called \<open>fetch\<close> at most once.
\<close>

theorem upstream_failure_502:
  assumes "internalApiUrl e = Some base" and "base \<noteq> []"
    and "outbound_call_fails url_host fetch base request"
  shows "status (snd (proxyRequest e url_host fetch request)) = 502
       \<and> body (snd (proxyRequest e url_host fetch request))
           = BodyText ''{\"error\":\"Proxy request failed\"}''
       \<and> headers (snd (proxyRequest e url_host fetch request))
           = [(''content-type'', ''application/json'')]
       \<and> headers_get (headers (snd (proxyRequest e url_host fetch request))) ''Content-Type''
           = Some ''application/json''
       \<and> length (fst (proxyRequest e url_host fetch request)) \<le> 1"
proof -
  have "snd (proxyRequest e url_host fetch request)
          = json_error_response 502 ''Proxy request failed''
        \<and> length (fst (proxyRequest e url_host fetch request)) \<le> 1"
    using assms
    by (auto simp: proxyRequest_def outbound_call_fails_def isl_def
        split: option.splits sum.splits)
  then show ?thesis
    by (simp add: json_error_response_eval headers_get_def toLowerCase_def char_toLowerCase_def)
qed

theorem upstream_failure_502_witness:
  "internalApiUrl \<lparr>INTERNAL_API_URL = Some ''http://api.internal:8080'', API_URL = None\<rparr>
     = Some ''http://api.internal:8080''
   \<and> outbound_call_fails (\<lambda>u. Some ''api.internal:8080'')
        (\<lambda>c. Inl (TypeError ''fetch failed'') :: exn + string fetched)
        ''http://api.internal:8080''
        \<lparr>req_method = ''GET'', pathname = ''/api/op/users/42'', search = ''?active=true'',
         req_headers = [(''accept'', ''*/*'')], req_body = Inr []\<rparr>
   \<and> status (snd (proxyRequest
        \<lparr>INTERNAL_API_URL = Some ''http://api.internal:8080'', API_URL = None\<rparr>
        (\<lambda>u. Some ''api.internal:8080'')
        (\<lambda>c. Inl (TypeError ''fetch failed'') :: exn + string fetched)
        \<lparr>req_method = ''GET'', pathname = ''/api/op/users/42'', search = ''?active=true'',
         req_headers = [(''accept'', ''*/*'')], req_body = Inr []\<rparr>)) = 502
   \<and> length (fst (proxyRequest
        \<lparr>INTERNAL_API_URL = Some ''http://api.internal:8080'', API_URL = None\<rparr>
        (\<lambda>u. Some ''api.internal:8080'')
        (\<lambda>c. Inl (TypeError ''fetch failed'') :: exn + string fetched)
        \<lparr>req_method = ''GET'', pathname = ''/api/op/users/42'', search = ''?active=true'',
         req_headers = [(''accept'', ''*/*'')], req_body = Inr []\<rparr>)) \<le> 1"
  using upstream_failure_502[of
        "\<lparr>INTERNAL_API_URL = Some ''http://api.internal:8080'', API_URL = None\<rparr>"
        "''http://api.internal:8080''"
        "\<lambda>u. Some ''api.internal:8080''"
        "\<lambda>c. Inl (TypeError ''fetch failed'') :: exn + string fetched"
        "\<lparr>req_method = ''GET'', pathname = ''/api/op/users/42'', search = ''?active=true'',
         req_headers = [(''accept'', ''*/*'')], req_body = Inr []\<rparr>"]
  by (simp add: handler_defs outbound_call_fails_def)

subsection \<open>The relayed response\<close>

text \<open>
  C8, as it is written, says that the status of every successful outbound response is
  relayed. The \<open>Response\<close> constructor at lines 60 to 64 stands inside the \<open>try\<close> block and
  throws for a status outside 200 to 599, so an outbound response with status 999 is
  answered with the 502 of the \<open>catch\<close> branch.
\<close>

theorem relayed_status_counterexample:
  "status (snd (proxyRequest
      \<lparr>INTERNAL_API_URL = Some ''http://api.internal:8080'', API_URL = None\<rparr>
      (\<lambda>u. Some ''api.internal:8080'')
      (\<lambda>c. Inr \<lparr>fetched_status = 999, fetched_statusText = ''Custom'',
                  fetched_headers = [(''content-type'', ''text/plain'')],
                  fetched_body = Some ''stream''\<rparr>)
      \<lparr>req_method = ''GET'', pathname = ''/api/op/users/42'', search = [],
       req_headers = [], req_body = Inr []\<rparr>)) = 502
   \<and> fetched_status \<lparr>fetched_status = 999, fetched_statusText = ''Custom'',
                  fetched_headers = [(''content-type'', ''text/plain'')],
                  fetched_body = Some ''stream''\<rparr> \<noteq> 502"
  by (simp add: handler_defs)

text \<open>
  C8, amended. When \<open>fetch\<close> resolves with a response that the \<open>Response\<close> constructor
  accepts (a status from 200 to 599, a status text that is a reason phrase, and no body
  together with one of the null-body statuses 204, 205 and 304), the response returned
  has the status code and the status text of the fetched response, and its body is the
  fetched body itself, the same stream or \<open>null\<close>. Every other fetched response is
  answered with the 502 error response.
\<close>

theorem relayed_status_and_body:
  assumes "internalApiUrl e = Some base" and "base \<noteq> []"
    and "url_host base = Some h"
    and "fetch_init base h request = Inr init"
    and "fetch init = Inr proxyResponse"
  shows "(relayable proxyResponse \<longrightarrow>
            status (snd (proxyRequest e url_host fetch request)) = fetched_status proxyResponse
            \<and> statusText (snd (proxyRequest e url_host fetch request))
                = fetched_statusText proxyResponse
            \<and> body (snd (proxyRequest e url_host fetch request))
                = relayed_body (fetched_body proxyResponse))
       \<and> (\<not> relayable proxyResponse \<longrightarrow>
            snd (proxyRequest e url_host fetch request)
              = json_error_response 502 ''Proxy request failed'')"
proof (cases "relayable proxyResponse")
  case True
  with assms new_Response_relayable[of proxyResponse] show ?thesis
    by (simp add: proxyRequest_def)
next
  case False
  from new_Response_not_relayable[OF False, of "responseHeaders (fetched_headers proxyResponse)"]
  obtain error where
    "new_Response (relayed_body (fetched_body proxyResponse)) (fetched_status proxyResponse)
       (fetched_statusText proxyResponse) (responseHeaders (fetched_headers proxyResponse))
     = Inl error"
    by (auto simp: isl_def)
  with assms False show ?thesis
    by (simp add: proxyRequest_def)
qed

theorem relayed_status_and_body_witness:
  "internalApiUrl \<lparr>INTERNAL_API_URL = None, API_URL = Some ''http://api.internal:8080''\<rparr>
     = Some ''http://api.internal:8080''
   \<and> relayable \<lparr>fetched_status = 404, fetched_statusText = ''Not Found'',
                 fetched_headers = [(''content-type'', ''text/plain'')],
                 fetched_body = Some ''no such user''\<rparr>
   \<and> snd (proxyRequest
        \<lparr>INTERNAL_API_URL = None, API_URL = Some ''http://api.internal:8080''\<rparr>
        (\<lambda>u. Some ''api.internal:8080'')
        (\<lambda>c. Inr \<lparr>fetched_status = 404, fetched_statusText = ''Not Found'',
                    fetched_headers = [(''content-type'', ''text/plain'')],
                    fetched_body = Some ''no such user''\<rparr>)
        \<lparr>req_method = ''GET'', pathname = ''/api/op/users/42'', search = [],
         req_headers = [], req_body = Inr []\<rparr>)
       = \<lparr>status = 404, statusText = ''Not Found'',
          headers = [(''content-type'', ''text/plain'')],
          body = BodyStream ''no such user''\<rparr>
   \<and> \<not> relayable \<lparr>fetched_status = 204, fetched_statusText = ''No Content'',
                 fetched_headers = [], fetched_body = Some ''stream''\<rparr>
   \<and> status (snd (proxyRequest
        \<lparr>INTERNAL_API_URL = None, API_URL = Some ''http://api.internal:8080''\<rparr>
        (\<lambda>u. Some ''api.internal:8080'')
        (\<lambda>c. Inr \<lparr>fetched_status = 204, fetched_statusText = ''No Content'',
                    fetched_headers = [], fetched_body = Some ''stream''\<rparr>)
        \<lparr>req_method = ''GET'', pathname = ''/api/op/users/42'', search = [],
         req_headers = [], req_body = Inr []\<rparr>)) = 502"
  using relayed_status_and_body[of
        "\<lparr>INTERNAL_API_URL = None, API_URL = Some ''http://api.internal:8080''\<rparr>"
        "''http://api.internal:8080''"
        "\<lambda>u. Some ''api.internal:8080''"
        "''api.internal:8080''"
        "\<lparr>req_method = ''GET'', pathname = ''/api/op/users/42'', search = [],
         req_headers = [], req_body = Inr []\<rparr>"
        "\<lparr>fetch_url = ''http://api.internal:8080/users/42'', fetch_method = ''GET'',
         fetch_headers = [''host'' \<mapsto> ''api.internal:8080''], fetch_body = None\<rparr>"
        "\<lambda>c. Inr \<lparr>fetched_status = 404, fetched_statusText = ''Not Found'',
                    fetched_headers = [(''content-type'', ''text/plain'')],
                    fetched_body = Some ''no such user''\<rparr>"
        "\<lparr>fetched_status = 404, fetched_statusText = ''Not Found'',
                    fetched_headers = [(''content-type'', ''text/plain'')],
                    fetched_body = Some ''no such user''\<rparr>"]
      relayed_status_and_body[of
        "\<lparr>INTERNAL_API_URL = None, API_URL = Some ''http://api.internal:8080''\<rparr>"
        "''http://api.internal:8080''"
        "\<lambda>u. Some ''api.internal:8080''"
        "''api.internal:8080''"
        "\<lparr>req_method = ''GET'', pathname = ''/api/op/users/42'', search = [],
         req_headers = [], req_body = Inr []\<rparr>"
        "\<lparr>fetch_url = ''http://api.internal:8080/users/42'', fetch_method = ''GET'',
         fetch_headers = [''host'' \<mapsto> ''api.internal:8080''], fetch_body = None\<rparr>"
        "\<lambda>c. Inr \<lparr>fetched_status = 204, fetched_statusText = ''No Content'',
                    fetched_headers = [], fetched_body = Some ''stream''\<rparr>"
        "\<lparr>fetched_status = 204, fetched_statusText = ''No Content'',
                    fetched_headers = [], fetched_body = Some ''stream''\<rparr>"]
  by (simp add: handler_defs)

text \<open>
  C5. The relayed headers never contain \<open>transfer-encoding\<close>, \<open>connection\<close> or
  \<open>keep-alive\<close> (\<open>responseHeaders_no_hop\<close>), and a header whose name occurs once is
  relayed with its value (\<open>responseHeaders_keeps\<close>). A name that \<open>forEach\<close> visits
  more than once, as it does for every \<open>Set-Cookie\<close> header of a response, is written
  with \<open>set\<close> each time, so only the last value is relayed. The comment at line 50 of
  the source announces that all headers from the API are forwarded. For a login response
  with two \<open>Set-Cookie\<close> headers the handler relays the second one only:
\<close>

theorem relayed_set_cookie_last_only:
  "headers (snd (proxyRequest
      \<lparr>INTERNAL_API_URL = Some ''http://api.internal:8080'', API_URL = None\<rparr>
      (\<lambda>u. Some ''api.internal:8080'')
      (\<lambda>c. Inr \<lparr>fetched_status = 200, fetched_statusText = ''OK'',
                  fetched_headers =
                    [(''connection'', ''keep-alive''),
                     (''content-type'', ''application/json''),
                     (''set-cookie'', ''session=abc; Path=/; HttpOnly''),
                     (''set-cookie'', ''theme=dark; Path=/''),
                     (''transfer-encoding'', ''chunked'')],
                  fetched_body = Some ''{}''\<rparr>)
      \<lparr>req_method = ''POST'', pathname = ''/api/op/auth/login'', search = [],
       req_headers = [(''content-type'', ''application/json'')],
       req_body = Inr [0x7B, 0x7D]\<rparr>))
   = [(''content-type'', ''application/json''), (''set-cookie'', ''theme=dark; Path=/'')]"
  by (simp add: handler_defs)

end
